theory Spec2Isabelle
  imports Main "HOL-Library.List_Lexorder" "HOL-Library.Char_ord"
begin

section \<open>Rows of the store and answers to a query\<close>

text \<open>
  The components read three tables of the hosted store. A row of \<^verbatim>\<open>code_laws\<close> and a
  row of \<^verbatim>\<open>rnc_articles\<close> carry the columns the components render (\<^verbatim>\<open>title\<close>,
  \<^verbatim>\<open>page\<close>, \<^verbatim>\<open>content\<close> are prefixed here, since record fields are global names);
  the sequence number is text. A row of \<^verbatim>\<open>cross_references\<close> is a directed edge.
\<close>

record law =
  law_number :: string
  law_title :: string
  law_page :: string
  law_content :: "string option"

record article =
  article_number :: string
  article_title :: string
  article_page :: string
  article_content :: "string option"

record cross_reference =
  from_type :: string
  from_id :: string
  to_type :: string
  to_id :: string
  "context" :: "string option"

text \<open>
  What \<^verbatim>\<open>const { data, error } = await supabase...\<close> can give: the promise rejects
  (the \<^verbatim>\<open>await\<close> throws), or it resolves to an object whose \<^verbatim>\<open>data\<close> and
  \<^verbatim>\<open>error\<close> may each be \<^verbatim>\<open>null\<close>. \<open>TypeError\<close> is the error of reading a property of
  \<^verbatim>\<open>undefined\<close>.
\<close>

datatype js_error = PostgrestError string | Rejection string | TypeError string

record 'a response =
  data :: "'a option"
  error :: "js_error option"

datatype 'a awaited = Resolved "'a response" | Rejected js_error

text \<open>
  The two queries of \<^verbatim>\<open>fetchLaw\<close>, as functions of the values the source passes to
  \<^verbatim>\<open>.eq\<close>: \<open>code_laws_single number\<close> is
  \<^verbatim>\<open>from('code_laws').select('*').eq('law_number', number).single()\<close> and
  \<open>cross_references_from t number\<close> is
  \<^verbatim>\<open>from('cross_references').select('*').eq('from_type', t).eq('from_id', number)\<close>.
\<close>

record law_backend =
  code_laws_single :: "string \<Rightarrow> law awaited"
  cross_references_from :: "string \<Rightarrow> string \<Rightarrow> cross_reference list awaited"

section \<open>LawViewer\<close>

text \<open>
  The state of \<^verbatim>\<open>LawViewer\<close> is its four \<^verbatim>\<open>useState\<close> cells; \<open>console\<close> collects what
  \<^verbatim>\<open>console.error\<close> receives in the \<^verbatim>\<open>catch\<close> branch. A breadcrumb entry is the object
  \<^verbatim>\<open>{ type, id }\<close>. Every fetch is taken to run to its end before the next user action.
\<close>

record breadcrumb_entry =
  entry_type :: string
  entry_id :: string

record viewer =
  law :: "law option"
  references :: "cross_reference list"
  loading :: bool
  breadcrumb :: "breadcrumb_entry list"
  console :: "js_error list"

definition LawViewer_initial :: viewer where
  "LawViewer_initial =
     \<lparr>law = None, references = [], loading = True, breadcrumb = [], console = []\<rparr>"

text \<open>
  The \<^verbatim>\<open>try\<close> block of \<^verbatim>\<open>fetchLaw\<close>: \<open>Inl (e, s)\<close> is a throw of \<open>e\<close> with the state as
  the setters called so far have left it, \<open>Inr s\<close> is the block running to its end.
\<close>

definition fetchLaw_try :: "law_backend \<Rightarrow> string \<Rightarrow> viewer \<Rightarrow> js_error \<times> viewer + viewer" where
  "fetchLaw_try b number s =
     (let s1 = s\<lparr>loading := True\<rparr> in
      case code_laws_single b number of
        Rejected e \<Rightarrow> Inl (e, s1)
      | Resolved lawResp \<Rightarrow>
          (case error lawResp of
             Some lawError \<Rightarrow> Inl (lawError, s1)
           | None \<Rightarrow>
               (let s2 = s1\<lparr>law := data lawResp\<rparr> in
                case cross_references_from b ''code'' number of
                  Rejected e \<Rightarrow> Inl (e, s2)
                | Resolved refResp \<Rightarrow>
                    (case error refResp of
                       Some refError \<Rightarrow> Inl (refError, s2)
                     | None \<Rightarrow>
                         Inr (s2\<lparr>references :=
                                   (case data refResp of Some refData \<Rightarrow> refData | None \<Rightarrow> [])\<rparr>)))))"

text \<open>\<^verbatim>\<open>catch\<close> logs the error and goes on; \<^verbatim>\<open>finally\<close> runs on both paths.\<close>

definition fetchLaw :: "law_backend \<Rightarrow> string \<Rightarrow> viewer \<Rightarrow> viewer" where
  "fetchLaw b number s =
     (let s' = (case fetchLaw_try b number s of
                  Inl (e, s1) \<Rightarrow> s1\<lparr>console := console s1 @ [e]\<rparr>
                | Inr s1 \<Rightarrow> s1)
      in s'\<lparr>loading := False\<rparr>)"

text \<open>
  The effect on \<^verbatim>\<open>[lawNumber]\<close>: a \<^verbatim>\<open>null\<close> or empty \<^verbatim>\<open>lawNumber\<close> is falsy and
  nothing happens.
\<close>

definition useEffect_lawNumber :: "law_backend \<Rightarrow> string option \<Rightarrow> viewer \<Rightarrow> viewer" where
  "useEffect_lawNumber b lawNumber s =
     (case lawNumber of
        None \<Rightarrow> s
      | Some n \<Rightarrow>
          if n = [] then s
          else (let s1 = fetchLaw b n s in
                s1\<lparr>breadcrumb := breadcrumb s1 @ [\<lparr>entry_type = ''code'', entry_id = n\<rparr>]\<rparr>))"

definition navigateTo :: "law_backend \<Rightarrow> string \<Rightarrow> string \<Rightarrow> viewer \<Rightarrow> viewer" where
  "navigateTo b ty i s =
     (if ty = ''code'' then
        (let s1 = fetchLaw b i s in
         s1\<lparr>breadcrumb := breadcrumb s1 @ [\<lparr>entry_type = ty, entry_id = i\<rparr>]\<rparr>)
      else if ty = ''rnc'' then s
      else s)"

text \<open>
  \<^verbatim>\<open>breadcrumb[index]\<close> is \<^verbatim>\<open>undefined\<close> past the end, and \<^verbatim>\<open>item.type\<close> then throws;
  \<^verbatim>\<open>slice(0, index + 1)\<close> has left the trail whole by then.
\<close>

definition navigateBack :: "law_backend \<Rightarrow> nat \<Rightarrow> viewer \<Rightarrow> js_error + viewer" where
  "navigateBack b index s =
     (if index < length (breadcrumb s) then
        (let item = breadcrumb s ! index;
             s1 = s\<lparr>breadcrumb := take (index + 1) (breadcrumb s)\<rparr>
         in if entry_type item = ''code'' then Inr (fetchLaw b (entry_id item) s1)
            else if entry_type item = ''rnc'' then Inr s1
            else Inr s1)
      else Inl (TypeError ''item is undefined''))"

text \<open>What the body of the viewer shows, under the breadcrumb line.\<close>

datatype rendering = Chargement | LawDetail law "cross_reference list" | LoiNonTrouvee

definition render :: "viewer \<Rightarrow> rendering" where
  "render s =
     (if loading s then Chargement
      else case law s of Some l \<Rightarrow> LawDetail l (references s) | None \<Rightarrow> LoiNonTrouvee)"

text \<open>
  A viewing session, from the initial state on: the effect runs when the component
  mounts with its \<^verbatim>\<open>lawNumber\<close> and whenever that prop changes, the user clicks on
  references and on breadcrumb links; each step meets the backend as it is at that
  moment. A throw in a click handler ends the run.
\<close>

datatype action =
  LawNumber law_backend "string option"
| NavigateTo law_backend string string
| NavigateBack law_backend nat

fun run :: "action list \<Rightarrow> viewer \<Rightarrow> js_error + viewer" where
  "run [] s = Inr s"
| "run (LawNumber b lawNumber # acts) s = run acts (useEffect_lawNumber b lawNumber s)"
| "run (NavigateTo b ty i # acts) s = run acts (navigateTo b ty i s)"
| "run (NavigateBack b index # acts) s =
     (case navigateBack b index s of Inl e \<Rightarrow> Inl e | Inr s' \<Rightarrow> run acts s')"

text \<open>A query has failed when its promise rejects or its answer carries an error.\<close>

definition query_failed :: "'a awaited \<Rightarrow> bool" where
  "query_failed q = (case q of Rejected e \<Rightarrow> True | Resolved r \<Rightarrow> error r \<noteq> None)"

definition query_data :: "'a awaited \<Rightarrow> 'a option" where
  "query_data q = (case q of Rejected e \<Rightarrow> None | Resolved r \<Rightarrow> data r)"

section \<open>The store behind the queries\<close>

text \<open>
  The hosted store as its three tables. \<open>single\<close> is the client library's \<^verbatim>\<open>.single()\<close>: the
  row when the filter leaves exactly one, an error (code PGRST116) and no data otherwise.
  \<^verbatim>\<open>.eq\<close> keeps the rows whose column equals the value.
\<close>

record store =
  code_laws :: "law list"
  rnc_articles :: "article list"
  cross_references :: "cross_reference list"

definition single :: "'a list \<Rightarrow> 'a response" where
  "single rows =
     (case rows of
        [r] \<Rightarrow> \<lparr>data = Some r, error = None\<rparr>
      | _ \<Rightarrow> \<lparr>data = None, error = Some (PostgrestError ''PGRST116'')\<rparr>)"

definition supabase :: "store \<Rightarrow> law_backend" where
  "supabase st =
     \<lparr>code_laws_single =
        (\<lambda>number. Resolved (single (filter (\<lambda>l. law_number l = number) (code_laws st)))),
      cross_references_from =
        (\<lambda>t i. Resolved \<lparr>data = Some (filter (\<lambda>r. from_type r = t \<and> from_id r = i)
                                          (cross_references st)),
                          error = None\<rparr>)\<rparr>"

section \<open>The list components\<close>

text \<open>
  \<^verbatim>\<open>CodeLaws\<close> and \<^verbatim>\<open>RncArticles\<close> each hold a list of rows and their own
  \<^verbatim>\<open>loading\<close> flag. The query is \<^verbatim>\<open>from(table).select('*').order(key)\<close>; the
  parameter \<open>q\<close> gives its outcome for the key the component names. No component
  reorders what it receives.
\<close>

record code_laws_view =
  laws :: "law list"
  laws_loading :: bool
  laws_console :: "js_error list"

record rnc_articles_view =
  articles :: "article list"
  articles_loading :: bool
  articles_console :: "js_error list"

definition CodeLaws_initial :: code_laws_view where
  "CodeLaws_initial = \<lparr>laws = [], laws_loading = True, laws_console = []\<rparr>"

definition RncArticles_initial :: rnc_articles_view where
  "RncArticles_initial = \<lparr>articles = [], articles_loading = True, articles_console = []\<rparr>"

text \<open>The \<^verbatim>\<open>try\<close> block from the \<^verbatim>\<open>await\<close> on, then \<^verbatim>\<open>catch\<close> and \<^verbatim>\<open>finally\<close>.\<close>

definition fetchLaws_try ::
  "law list awaited \<Rightarrow> code_laws_view \<Rightarrow> js_error \<times> code_laws_view + code_laws_view" where
  "fetchLaws_try r s =
     (case r of
        Rejected e \<Rightarrow> Inl (e, s)
      | Resolved resp \<Rightarrow>
          (case error resp of
             Some e \<Rightarrow> Inl (e, s)
           | None \<Rightarrow> Inr (s\<lparr>laws := (case data resp of Some d \<Rightarrow> d | None \<Rightarrow> [])\<rparr>)))"

definition fetchLaws_end :: "js_error \<times> code_laws_view + code_laws_view \<Rightarrow> code_laws_view" where
  "fetchLaws_end t =
     (let s' = (case t of
                  Inl (e, s1) \<Rightarrow> s1\<lparr>laws_console := laws_console s1 @ [e]\<rparr>
                | Inr s1 \<Rightarrow> s1)
      in s'\<lparr>laws_loading := False\<rparr>)"

text \<open>
  \<open>fetchLaws\<close> is the function of \<^verbatim>\<open>CodeLaws.jsx\<close> (the version that takes
  \<^verbatim>\<open>onSelectLaw\<close> differs by an \<^verbatim>\<open>alert\<close> only); \<open>fetchLaws_reload\<close> is the version
  behind the reload button, which does not raise the flag first; \<open>fetchLaws_plain\<close> is the
  version kept in \<^verbatim>\<open>RncArticles.jsx\<close>, which orders by the bare column.
\<close>

definition fetchLaws :: "(string \<Rightarrow> law list awaited) \<Rightarrow> code_laws_view \<Rightarrow> code_laws_view" where
  "fetchLaws q s =
     fetchLaws_end (fetchLaws_try (q ''law_number::integer'') (s\<lparr>laws_loading := True\<rparr>))"

definition fetchLaws_reload ::
  "(string \<Rightarrow> law list awaited) \<Rightarrow> code_laws_view \<Rightarrow> code_laws_view" where
  "fetchLaws_reload q s = fetchLaws_end (fetchLaws_try (q ''law_number::integer'') s)"

definition fetchLaws_plain ::
  "(string \<Rightarrow> law list awaited) \<Rightarrow> code_laws_view \<Rightarrow> code_laws_view" where
  "fetchLaws_plain q s =
     fetchLaws_end (fetchLaws_try (q ''law_number'') (s\<lparr>laws_loading := True\<rparr>))"

definition fetchArticles_try ::
  "article list awaited \<Rightarrow> rnc_articles_view
     \<Rightarrow> js_error \<times> rnc_articles_view + rnc_articles_view" where
  "fetchArticles_try r s =
     (case r of
        Rejected e \<Rightarrow> Inl (e, s)
      | Resolved resp \<Rightarrow>
          (case error resp of
             Some e \<Rightarrow> Inl (e, s)
           | None \<Rightarrow> Inr (s\<lparr>articles := (case data resp of Some d \<Rightarrow> d | None \<Rightarrow> [])\<rparr>)))"

definition fetchArticles ::
  "(string \<Rightarrow> article list awaited) \<Rightarrow> rnc_articles_view \<Rightarrow> rnc_articles_view" where
  "fetchArticles q s =
     (let s' = (case fetchArticles_try (q ''article_number'') (s\<lparr>articles_loading := True\<rparr>) of
                  Inl (e, s1) \<Rightarrow> s1\<lparr>articles_console := articles_console s1 @ [e]\<rparr>
                | Inr s1 \<Rightarrow> s1)
      in s'\<lparr>articles_loading := False\<rparr>)"

text \<open>
  The store's answer to the one ordering \<^verbatim>\<open>fetchArticles\<close> asks for. The column is text,
  so \<^verbatim>\<open>ORDER BY article_number\<close> compares text, character by character; what the store
  answers to any other key is the parameter \<open>other\<close>.
\<close>

definition rnc_articles_ordered ::
  "(string \<Rightarrow> article list awaited) \<Rightarrow> article list \<Rightarrow> string \<Rightarrow> article list awaited" where
  "rnc_articles_ordered other rows key =
     (if key = ''article_number''
      then Resolved \<lparr>data = Some (sort_key article_number rows), error = None\<rparr>
      else other key)"

text \<open>The number a sequence of decimal digits denotes, and a list in ascending numeric order.\<close>

definition numeric_value :: "string \<Rightarrow> nat" where
  "numeric_value t = foldl (\<lambda>n c. 10 * n + (of_char c - 48)) 0 t"

definition numerically_ascending :: "string list \<Rightarrow> bool" where
  "numerically_ascending ts = sorted (map numeric_value ts)"

section \<open>ArbitragePage\<close>

text \<open>
  The page holds the active tab and the two selections. A tab button calls
  \<^verbatim>\<open>setActiveTab\<close> and nothing else; \<^verbatim>\<open>onSelectLaw\<close> is \<^verbatim>\<open>setSelectedLaw\<close> and
  \<^verbatim>\<open>onBack\<close> is \<^verbatim>\<open>setSelectedLaw(null)\<close>. \<open>content\<close> lists the components the three
  guarded lines of the \<^verbatim>\<open>content\<close> block mount, in their order.
\<close>

record page =
  activeTab :: string
  selectedLaw :: "string option"
  selectedArticle :: "string option"

definition ArbitragePage_initial :: page where
  "ArbitragePage_initial = \<lparr>activeTab = ''code'', selectedLaw = None, selectedArticle = None\<rparr>"

definition setActiveTab :: "string \<Rightarrow> page \<Rightarrow> page" where
  "setActiveTab tab p = p\<lparr>activeTab := tab\<rparr>"

definition setSelectedLaw :: "string option \<Rightarrow> page \<Rightarrow> page" where
  "setSelectedLaw v p = p\<lparr>selectedLaw := v\<rparr>"

definition onBack :: "page \<Rightarrow> page" where
  "onBack p = setSelectedLaw None p"

definition truthy :: "string option \<Rightarrow> bool" where
  "truthy v = (case v of None \<Rightarrow> False | Some t \<Rightarrow> t \<noteq> [])"

datatype component = CodeLaws | RncArticles | LawViewer string

definition content :: "page \<Rightarrow> component list" where
  "content p =
     (if activeTab p = ''code'' \<and> \<not> truthy (selectedLaw p) then [CodeLaws] else []) @
     (if activeTab p = ''rnc'' \<and> \<not> truthy (selectedArticle p) then [RncArticles] else []) @
     (if activeTab p = ''code'' \<and> truthy (selectedLaw p)
      then (case selectedLaw p of Some n \<Rightarrow> [LawViewer n] | None \<Rightarrow> [])
      else [])"

section \<open>A store to run the viewer on\<close>

text \<open>
  Laws 1, 2 and 40 and articles 2, 10 and 12 of the RNC; law 40 refers to law 1, to
  article 12 and, by a reference whose target was never entered, to law 999.
\<close>

definition law1 :: law where
  "law1 = \<lparr>law_number = ''1'', law_title = ''The pack'', law_page = ''5'', law_content = None\<rparr>"

definition law2 :: law where
  "law2 = \<lparr>law_number = ''2'', law_title = ''The boards'', law_page = ''5'', law_content = None\<rparr>"

definition law40 :: law where
  "law40 = \<lparr>law_number = ''40'', law_title = ''Partnership understandings'', law_page = ''48'',
            law_content = Some ''text of law 40''\<rparr>"

definition ref_40_1 :: cross_reference where
  "ref_40_1 = \<lparr>from_type = ''code'', from_id = ''40'', to_type = ''code'', to_id = ''1'',
               context = Some ''see opening lead''\<rparr>"

definition ref_40_999 :: cross_reference where
  "ref_40_999 = \<lparr>from_type = ''code'', from_id = ''40'', to_type = ''code'', to_id = ''999'',
                 context = None\<rparr>"

definition ref_40_rnc12 :: cross_reference where
  "ref_40_rnc12 = \<lparr>from_type = ''code'', from_id = ''40'', to_type = ''rnc'', to_id = ''12'',
                   context = None\<rparr>"

definition article2 :: article where
  "article2 = \<lparr>article_number = ''2'', article_title = ''Licences'', article_page = ''7'',
               article_content = None\<rparr>"

definition article10 :: article where
  "article10 = \<lparr>article_number = ''10'', article_title = ''Appeals'', article_page = ''21'',
                article_content = None\<rparr>"

definition article12 :: article where
  "article12 = \<lparr>article_number = ''12'', article_title = ''Penalties'', article_page = ''25'',
                article_content = Some ''text of article 12''\<rparr>"

definition scenario_store :: store where
  "scenario_store =
     \<lparr>code_laws = [law1, law2, law40],
      rnc_articles = [article2, article10, article12],
      cross_references = [ref_40_1, ref_40_999, ref_40_rnc12]\<rparr>"

text \<open>The viewer once law 40, picked in the list, has loaded.\<close>

definition viewing_40 :: viewer where
  "viewing_40 =
     \<lparr>law = Some law40, references = [ref_40_1, ref_40_999, ref_40_rnc12], loading = False,
      breadcrumb = [\<lparr>entry_type = ''code'', entry_id = ''40''\<rparr>], console = []\<rparr>"

text \<open>
  A store that answers for the laws while its reference table cannot be read: the
  client resolves with an error object and no data.
\<close>

definition references_unreachable :: "store \<Rightarrow> law_backend" where
  "references_unreachable st =
     (supabase st)\<lparr>cross_references_from :=
        (\<lambda>t i. Resolved \<lparr>data = None, error = Some (PostgrestError ''42501'')\<rparr>)\<rparr>"

section \<open>Properties of fetchLaw\<close>

lemmas store_defs =
  scenario_store_def law1_def law2_def law40_def ref_40_1_def ref_40_999_def ref_40_rnc12_def
  supabase_def single_def

lemmas viewer_defs =
  fetchLaw_def fetchLaw_try_def navigateTo_def navigateBack_def useEffect_lawNumber_def
  LawViewer_initial_def render_def viewing_40_def

lemma fetchLaw_breadcrumb: "breadcrumb (fetchLaw b number s) = breadcrumb s"
  by (simp add: fetchLaw_def fetchLaw_try_def Let_def split: awaited.splits option.splits)

lemma fetchLaw_loading: "loading (fetchLaw b number s) = False"
  by (simp add: fetchLaw_def fetchLaw_try_def Let_def split: awaited.splits option.splits)

lemma fetchLaws_end_loading: "laws_loading (fetchLaws_end t) = False"
  by (simp add: fetchLaws_end_def Let_def split: sum.splits prod.splits)

lemma fetchArticles_loading: "articles_loading (fetchArticles q s) = False"
  by (simp add: fetchArticles_def Let_def split: sum.splits prod.splits)

text \<open>
  C9: after a document fetch or a list fetch has run to its end the loading flag of the
  component is false, whatever the queries did (promise rejected, answer with an error,
  answer with data): the \<^verbatim>\<open>finally\<close> branch resets it on every path. This holds for
  \<^verbatim>\<open>fetchLaw\<close>, \<^verbatim>\<open>fetchArticles\<close> and every version of \<^verbatim>\<open>fetchLaws\<close>.
\<close>

theorem loading_false_after_fetch:
  "loading (fetchLaw b number s) = False \<and>
   articles_loading (fetchArticles qa sa) = False \<and>
   laws_loading (fetchLaws ql sl) = False \<and>
   laws_loading (fetchLaws_reload ql sl) = False \<and>
   laws_loading (fetchLaws_plain ql sl) = False"
  by (simp add: fetchLaw_loading fetchArticles_loading fetchLaws_end_loading
      fetchLaws_def fetchLaws_reload_def fetchLaws_plain_def)


text \<open>
  C10: \<^verbatim>\<open>fetchLaw\<close> is not atomic on error. If the document query fails, the document
  and the references that were in the state stay there unchanged. If the document query
  succeeds and the reference query then fails, the new document is stored and the
  references of the previous document stay in the state.
\<close>

theorem fetchLaw_not_atomic:
  "(query_failed (code_laws_single b number) \<longrightarrow>
      law (fetchLaw b number s) = law s \<and> references (fetchLaw b number s) = references s) \<and>
   (\<not> query_failed (code_laws_single b number) \<and>
    query_failed (cross_references_from b ''code'' number) \<longrightarrow>
      law (fetchLaw b number s) = query_data (code_laws_single b number) \<and>
      references (fetchLaw b number s) = references s)"
  by (simp add: fetchLaw_def fetchLaw_try_def Let_def query_failed_def query_data_def
      split: awaited.splits option.splits)

text \<open>
  Witness for C10: from the viewer on law 40, a request for the missing law 999 keeps law
  40 and its references; a request for law 1 while the reference table cannot be read
  stores law 1 and keeps the references of law 40.
\<close>

theorem fetchLaw_not_atomic_witness:
  "query_failed (code_laws_single (supabase scenario_store) ''999'') \<and>
   law (fetchLaw (supabase scenario_store) ''999'' viewing_40) = Some law40 \<and>
   references (fetchLaw (supabase scenario_store) ''999'' viewing_40)
     = [ref_40_1, ref_40_999, ref_40_rnc12] \<and>
   \<not> query_failed (code_laws_single (references_unreachable scenario_store) ''1'') \<and>
   query_failed (cross_references_from (references_unreachable scenario_store) ''code'' ''1'') \<and>
   law (fetchLaw (references_unreachable scenario_store) ''1'' viewing_40) = Some law1 \<and>
   references (fetchLaw (references_unreachable scenario_store) ''1'' viewing_40)
     = [ref_40_1, ref_40_999, ref_40_rnc12]"
proof -
  have f1: "query_failed (code_laws_single (supabase scenario_store) ''999'')"
    by (simp add: query_failed_def store_defs)
  have f2: "\<not> query_failed (code_laws_single (references_unreachable scenario_store) ''1'')"
    by (simp add: query_failed_def references_unreachable_def store_defs)
  have f3: "query_failed (cross_references_from (references_unreachable scenario_store) ''code'' ''1'')"
    by (simp add: query_failed_def references_unreachable_def store_defs)
  have d: "query_data (code_laws_single (references_unreachable scenario_store) ''1'') = Some law1"
    by (simp add: query_data_def references_unreachable_def store_defs)
  have v: "law viewing_40 = Some law40"
    "references viewing_40 = [ref_40_1, ref_40_999, ref_40_rnc12]"
    by (simp_all add: viewing_40_def)
  show ?thesis
    using f1 f2 f3 d v
      fetchLaw_not_atomic [of "supabase scenario_store" "''999''" viewing_40]
      fetchLaw_not_atomic [of "references_unreachable scenario_store" "''1''" viewing_40]
    by simp
qed

lemma fetchLaw_success:
  assumes "code_laws_single b number = Resolved \<lparr>data = d, error = None\<rparr>"
    and "cross_references_from b ''code'' number = Resolved \<lparr>data = Some rs, error = None\<rparr>"
  shows "law (fetchLaw b number s) = d \<and> references (fetchLaw b number s) = rs"
  using assms by (simp add: fetchLaw_def fetchLaw_try_def Let_def)

text \<open>
  C6, as amended: for every \<open>(type, id)\<close> of type \<^verbatim>\<open>code\<close> that identifies exactly one
  law of the store, and the store answering both queries, loading the document (by
  \<^verbatim>\<open>fetchLaw(id)\<close>, and by \<^verbatim>\<open>navigateTo(type, id)\<close> through it) leaves that law of the
  \<^verbatim>\<open>code_laws\<close> table in the state, its number equal to \<open>id\<close>, together with exactly
  the cross-references whose source is \<open>(type, id)\<close>, in the order of the store; for a
  law with no outbound edge the reference sequence is empty.
\<close>

theorem fetchLaw_existing_document:
  assumes "ty = ''code''"
    and "filter (\<lambda>l. law_number l = number) (code_laws st) = [doc]"
  shows "law (fetchLaw (supabase st) number s) = Some doc \<and>
         law (navigateTo (supabase st) ty number s) = Some doc \<and>
         doc \<in> set (code_laws st) \<and> law_number doc = number \<and>
         references (fetchLaw (supabase st) number s) =
           filter (\<lambda>r. from_type r = ty \<and> from_id r = number) (cross_references st) \<and>
         references (navigateTo (supabase st) ty number s) =
           filter (\<lambda>r. from_type r = ty \<and> from_id r = number) (cross_references st) \<and>
         (filter (\<lambda>r. from_type r = ty \<and> from_id r = number) (cross_references st) = []
            \<longrightarrow> references (fetchLaw (supabase st) number s) = [] \<and>
                references (navigateTo (supabase st) ty number s) = [])"
proof -
  have m: "doc \<in> set (filter (\<lambda>l. law_number l = number) (code_laws st))"
    using assms(2) by simp
  have f: "law (fetchLaw (supabase st) number s) = Some doc \<and>
           references (fetchLaw (supabase st) number s) =
             filter (\<lambda>r. from_type r = ''code'' \<and> from_id r = number) (cross_references st)"
    by (rule fetchLaw_success) (simp_all add: supabase_def single_def assms(2))
  have n: "law (navigateTo (supabase st) ''code'' number s) = law (fetchLaw (supabase st) number s) \<and>
           references (navigateTo (supabase st) ''code'' number s)
             = references (fetchLaw (supabase st) number s)"
    by (simp add: navigateTo_def Let_def)
  from m f n show ?thesis
    by (simp add: assms(1))
qed

text \<open>
  Witness for C6: in the scenario store law 40 is loaded with its three references, and
  law 1, which has no outbound edge, with none.
\<close>

theorem fetchLaw_existing_document_witness:
  "filter (\<lambda>l. law_number l = ''40'') (code_laws scenario_store) = [law40] \<and>
   law (fetchLaw (supabase scenario_store) ''40'' LawViewer_initial) = Some law40 \<and>
   law_number law40 = ''40'' \<and>
   references (fetchLaw (supabase scenario_store) ''40'' LawViewer_initial)
     = [ref_40_1, ref_40_999, ref_40_rnc12] \<and>
   filter (\<lambda>l. law_number l = ''1'') (code_laws scenario_store) = [law1] \<and>
   filter (\<lambda>r. from_type r = ''code'' \<and> from_id r = ''1'') (cross_references scenario_store) = [] \<and>
   law (navigateTo (supabase scenario_store) ''code'' ''1'' viewing_40) = Some law1 \<and>
   references (navigateTo (supabase scenario_store) ''code'' ''1'' viewing_40) = []"
proof -
  have c: "''code'' = ''code''"
    by simp
  have h40: "filter (\<lambda>l. law_number l = ''40'') (code_laws scenario_store) = [law40]"
    by (simp add: store_defs)
  have h1: "filter (\<lambda>l. law_number l = ''1'') (code_laws scenario_store) = [law1]"
    by (simp add: store_defs)
  have r40: "filter (\<lambda>r. from_type r = ''code'' \<and> from_id r = ''40'') (cross_references scenario_store)
               = [ref_40_1, ref_40_999, ref_40_rnc12]"
    by (simp add: store_defs)
  have r1: "filter (\<lambda>r. from_type r = ''code'' \<and> from_id r = ''1'') (cross_references scenario_store) = []"
    by (simp add: store_defs)
  have n40: "law_number law40 = ''40''"
    by (simp add: law40_def)
  show ?thesis
    using h40 h1 r40 r1 n40
      fetchLaw_existing_document [OF c h40, of LawViewer_initial]
      fetchLaw_existing_document [OF c h1, of viewing_40]
    by simp
qed

text \<open>
  Counterexample to C6 as stated: article 12 of the RNC is in the store, and law 40
  refers to it. Following that reference loads nothing: the viewer goes on showing law
  40, whose number is not 12, with the references of law 40.
\<close>

theorem existing_rnc_article_not_loaded:
  "article12 \<in> set (rnc_articles scenario_store) \<and>
   article_number article12 = ''12'' \<and>
   law (navigateTo (supabase scenario_store) ''rnc'' ''12'' viewing_40) = Some law40 \<and>
   law_number law40 \<noteq> ''12'' \<and>
   render (navigateTo (supabase scenario_store) ''rnc'' ''12'' viewing_40)
     = LawDetail law40 [ref_40_1, ref_40_999, ref_40_rnc12]"
  by (simp add: navigateTo_def viewing_40_def render_def scenario_store_def article12_def
      law40_def)

section \<open>The breadcrumb trail\<close>

text \<open>
  C1, as amended: for every trail and every reference of type \<^verbatim>\<open>code\<close> that is followed,
  \<^verbatim>\<open>navigateTo\<close> leaves the old trail with \<open>{type, id}\<close> appended: the length grows by
  exactly 1, the new last entry is \<open>{type, id}\<close>, and the earlier entries are unchanged,
  whether the fetch succeeds or not.
\<close>

theorem navigateTo_code_appends:
  assumes "ty = ''code''"
  shows "breadcrumb (navigateTo b ty i s) = breadcrumb s @ [\<lparr>entry_type = ty, entry_id = i\<rparr>] \<and>
         length (breadcrumb (navigateTo b ty i s)) = length (breadcrumb s) + 1 \<and>
         last (breadcrumb (navigateTo b ty i s)) = \<lparr>entry_type = ty, entry_id = i\<rparr> \<and>
         take (length (breadcrumb s)) (breadcrumb (navigateTo b ty i s)) = breadcrumb s"
  using assms by (simp add: navigateTo_def Let_def fetchLaw_breadcrumb)

text \<open>Witness for C1: following the reference from law 40 to law 1.\<close>

theorem navigateTo_code_appends_witness:
  "breadcrumb (navigateTo (supabase scenario_store) ''code'' ''1'' viewing_40)
     = [\<lparr>entry_type = ''code'', entry_id = ''40''\<rparr>, \<lparr>entry_type = ''code'', entry_id = ''1''\<rparr>] \<and>
   length (breadcrumb (navigateTo (supabase scenario_store) ''code'' ''1'' viewing_40)) = 2 \<and>
   last (breadcrumb (navigateTo (supabase scenario_store) ''code'' ''1'' viewing_40))
     = \<lparr>entry_type = ''code'', entry_id = ''1''\<rparr>"
proof -
  have t: "breadcrumb viewing_40 = [\<lparr>entry_type = ''code'', entry_id = ''40''\<rparr>]"
    by (simp add: viewing_40_def)
  have c: "''code'' = ''code''"
    by simp
  show ?thesis
    using t navigateTo_code_appends [OF c, of "supabase scenario_store" "''1''" viewing_40]
    by simp
qed

text \<open>
  Counterexample to C1 as stated: following the reference from law 40 to article 12 of
  the RNC leaves the trail at its one entry.
\<close>

theorem navigateTo_rnc_counterexample:
  "length (breadcrumb (navigateTo (supabase scenario_store) ''rnc'' ''12'' viewing_40))
     \<noteq> length (breadcrumb viewing_40) + 1"
  by (simp add: navigateTo_def viewing_40_def)

lemma navigateBack_breadcrumb:
  "navigateBack b index s = Inr s' \<Longrightarrow> breadcrumb s' = take (index + 1) (breadcrumb s)"
  by (auto simp add: navigateBack_def Let_def fetchLaw_breadcrumb split: if_splits)

text \<open>
  C2: on a trail of length N and for an index below N, \<^verbatim>\<open>navigateBack\<close> returns (it does
  not throw) and leaves a trail of exactly \<open>index + 1\<close> entries, the first \<open>index + 1\<close>
  of the old trail; its last entry is the entry that stood at that position.
\<close>

theorem navigateBack_truncates:
  assumes "index < length (breadcrumb s)"
  shows "\<exists>s'. navigateBack b index s = Inr s' \<and>
              breadcrumb s' = take (index + 1) (breadcrumb s) \<and>
              length (breadcrumb s') = index + 1 \<and>
              last (breadcrumb s') = breadcrumb s ! index"
  using assms
  by (auto simp add: navigateBack_def Let_def fetchLaw_breadcrumb take_Suc_conv_app_nth)

text \<open>
  Witness for C2: with the trail \<open>[40, 1]\<close>, jumping to index 0 gives the trail \<open>[40]\<close>.
\<close>

theorem navigateBack_truncates_witness:
  "(0::nat) < length (breadcrumb (navigateTo (supabase scenario_store) ''code'' ''1'' viewing_40)) \<and>
   (\<exists>s'. navigateBack (supabase scenario_store) 0
            (navigateTo (supabase scenario_store) ''code'' ''1'' viewing_40) = Inr s' \<and>
         breadcrumb s' = [\<lparr>entry_type = ''code'', entry_id = ''40''\<rparr>] \<and>
         length (breadcrumb s') = 1 \<and>
         last (breadcrumb s') = \<lparr>entry_type = ''code'', entry_id = ''40''\<rparr>)"
proof -
  have t: "breadcrumb (navigateTo (supabase scenario_store) ''code'' ''1'' viewing_40)
             = [\<lparr>entry_type = ''code'', entry_id = ''40''\<rparr>, \<lparr>entry_type = ''code'', entry_id = ''1''\<rparr>]"
    by (simp add: navigateTo_def Let_def fetchLaw_breadcrumb viewing_40_def)
  have h: "(0::nat) < length (breadcrumb (navigateTo (supabase scenario_store) ''code'' ''1'' viewing_40))"
    by (simp add: t)
  show ?thesis
    using h navigateBack_truncates [OF h, of "supabase scenario_store"]
    by (simp add: t)
qed

lemma useEffect_all_code:
  "list_all (\<lambda>e. entry_type e = ''code'') (breadcrumb s) \<Longrightarrow>
   list_all (\<lambda>e. entry_type e = ''code'') (breadcrumb (useEffect_lawNumber b lawNumber s))"
  by (simp add: useEffect_lawNumber_def Let_def fetchLaw_breadcrumb split: option.splits)

lemma navigateTo_all_code:
  "list_all (\<lambda>e. entry_type e = ''code'') (breadcrumb s) \<Longrightarrow>
   list_all (\<lambda>e. entry_type e = ''code'') (breadcrumb (navigateTo b ty i s))"
  by (simp add: navigateTo_def Let_def fetchLaw_breadcrumb)

lemma navigateBack_all_code:
  assumes "list_all (\<lambda>e. entry_type e = ''code'') (breadcrumb s)"
    and "navigateBack b index s = Inr s'"
  shows "list_all (\<lambda>e. entry_type e = ''code'') (breadcrumb s')"
proof -
  have "set (breadcrumb s') \<subseteq> set (breadcrumb s)"
    using navigateBack_breadcrumb [OF assms(2)] by (simp add: set_take_subset)
  with assms(1) show ?thesis
    by (auto simp add: list_all_iff)
qed

lemma run_all_code:
  "list_all (\<lambda>e. entry_type e = ''code'') (breadcrumb s) \<Longrightarrow> run acts s = Inr s' \<Longrightarrow>
   list_all (\<lambda>e. entry_type e = ''code'') (breadcrumb s')"
proof (induction acts arbitrary: s)
  case Nil
  then show ?case by simp
next
  case (Cons a acts)
  show ?case
  proof (cases a)
    case (LawNumber b lawNumber)
    with Cons.prems have "run acts (useEffect_lawNumber b lawNumber s) = Inr s'"
      by simp
    moreover have "list_all (\<lambda>e. entry_type e = ''code'')
                     (breadcrumb (useEffect_lawNumber b lawNumber s))"
      using Cons.prems(1) by (rule useEffect_all_code)
    ultimately show ?thesis
      using Cons.IH by blast
  next
    case (NavigateTo b ty i)
    with Cons.prems have "run acts (navigateTo b ty i s) = Inr s'"
      by simp
    moreover have "list_all (\<lambda>e. entry_type e = ''code'') (breadcrumb (navigateTo b ty i s))"
      using Cons.prems(1) by (rule navigateTo_all_code)
    ultimately show ?thesis
      using Cons.IH by blast
  next
    case (NavigateBack b index)
    with Cons.prems obtain s1
      where s1: "navigateBack b index s = Inr s1" and r: "run acts s1 = Inr s'"
      by (auto split: sum.splits)
    from navigateBack_all_code [OF Cons.prems(1) s1] r show ?thesis
      using Cons.IH by blast
  qed
qed

text \<open>
  C8: in every state a viewing session reaches from the initial state (by the effect
  on \<^verbatim>\<open>lawNumber\<close>, clicks on references and clicks on breadcrumb links, in any order
  and against any backend), every entry of the trail has type \<^verbatim>\<open>code\<close>; and
  \<^verbatim>\<open>navigateTo\<close> with type \<^verbatim>\<open>rnc\<close> returns the state as it was: trail, document,
  references and all.
\<close>

theorem trail_entries_are_code:
  assumes "run acts LawViewer_initial = Inr s"
  shows "list_all (\<lambda>e. entry_type e = ''code'') (breadcrumb s) \<and> navigateTo b ''rnc'' i s = s"
proof
  have "list_all (\<lambda>e. entry_type e = ''code'') (breadcrumb LawViewer_initial)"
    by (simp add: LawViewer_initial_def)
  then show "list_all (\<lambda>e. entry_type e = ''code'') (breadcrumb s)"
    using assms by (rule run_all_code)
  show "navigateTo b ''rnc'' i s = s"
    by (simp add: navigateTo_def)
qed

text \<open>
  Witness for C8: law 40 is opened, the reference to law 1 is followed, the reference to
  article 12 of the RNC is clicked, and the first breadcrumb link brings law 40 back.
\<close>

theorem trail_entries_are_code_witness:
  "run [LawNumber (supabase scenario_store) (Some ''40''),
        NavigateTo (supabase scenario_store) ''code'' ''1'',
        NavigateTo (supabase scenario_store) ''rnc'' ''12'',
        NavigateBack (supabase scenario_store) 0]
     LawViewer_initial
     = Inr viewing_40 \<and>
   list_all (\<lambda>e. entry_type e = ''code'') (breadcrumb viewing_40) \<and>
   navigateTo (supabase scenario_store) ''rnc'' ''12'' viewing_40 = viewing_40"
proof -
  have h: "run [LawNumber (supabase scenario_store) (Some ''40''),
                NavigateTo (supabase scenario_store) ''code'' ''1'',
                NavigateTo (supabase scenario_store) ''rnc'' ''12'',
                NavigateBack (supabase scenario_store) 0]
             LawViewer_initial
             = Inr viewing_40"
    by (simp add: store_defs viewer_defs)
  have "list_all (\<lambda>e. entry_type e = ''code'') (breadcrumb viewing_40) \<and>
        navigateTo (supabase scenario_store) ''rnc'' ''12'' viewing_40 = viewing_40"
    using h by (rule trail_entries_are_code)
  with h show ?thesis
    by simp
qed

section \<open>A request for a document that is not in the store\<close>

text \<open>
  C4 at the failing input. No law 999 is in the store. Opened from the list into a fresh
  viewer, law 999 gives the not-found rendering. Reached from law 40 by its reference,
  the same request logs the error and the viewer goes on showing law 40 with its
  references, under a trail that ends in 999: \<^verbatim>\<open>law\<close> is not cleared when the query
  fails.
\<close>

theorem missing_law_keeps_previous_document:
  "filter (\<lambda>l. law_number l = ''999'') (code_laws scenario_store) = [] \<and>
   useEffect_lawNumber (supabase scenario_store) (Some ''40'') LawViewer_initial = viewing_40 \<and>
   render (useEffect_lawNumber (supabase scenario_store) (Some ''999'') LawViewer_initial)
     = LoiNonTrouvee \<and>
   render (navigateTo (supabase scenario_store) ''code'' ''999'' viewing_40)
     = LawDetail law40 [ref_40_1, ref_40_999, ref_40_rnc12] \<and>
   console (navigateTo (supabase scenario_store) ''code'' ''999'' viewing_40)
     = [PostgrestError ''PGRST116'']"
  by (simp add: store_defs viewer_defs)

text \<open>
  C7 at the failing input. The session opens law 40 and follows its reference to the
  missing law 999: the state reached has the trail \<open>[40, 999]\<close>, whose last entry names
  law 999, while the document displayed is law 40.
\<close>

theorem trail_end_differs_from_displayed:
  "run [LawNumber (supabase scenario_store) (Some ''40''),
        NavigateTo (supabase scenario_store) ''code'' ''999'']
     LawViewer_initial
     = Inr (viewing_40\<lparr>breadcrumb := [\<lparr>entry_type = ''code'', entry_id = ''40''\<rparr>,
                                       \<lparr>entry_type = ''code'', entry_id = ''999''\<rparr>],
                       console := [PostgrestError ''PGRST116'']\<rparr>) \<and>
   law (viewing_40\<lparr>breadcrumb := [\<lparr>entry_type = ''code'', entry_id = ''40''\<rparr>,
                                   \<lparr>entry_type = ''code'', entry_id = ''999''\<rparr>],
                   console := [PostgrestError ''PGRST116'']\<rparr>) = Some law40 \<and>
   law_number law40 \<noteq> ''999''"
  by (simp add: store_defs viewer_defs)

section \<open>The order of a list view\<close>

text \<open>
  C5 at the failing input. The table of RNC articles holds articles 2 and 10.
  \<^verbatim>\<open>fetchArticles\<close> asks for the order of the bare text column, the store answers in
  text order, and the component shows article 10 before article 2: the sequence is not
  ascending by numeric value.
\<close>

theorem fetchArticles_text_order:
  "articles (fetchArticles
              (rnc_articles_ordered (\<lambda>key. Rejected (Rejection ''Failed to fetch''))
                 [article2, article10])
              RncArticles_initial)
     = [article10, article2] \<and>
   \<not> numerically_ascending (map article_number [article10, article2])"
  by (simp add: fetchArticles_def fetchArticles_try_def rnc_articles_ordered_def
      RncArticles_initial_def article2_def article10_def numerically_ascending_def
      numeric_value_def)

section \<open>Switching tabs\<close>

text \<open>
  C3, as amended: switching the active tab sets the tab and leaves both selections as
  they were. After a switch to \<^verbatim>\<open>code\<close> the list of laws is shown when no law is
  selected, and the viewer of the law still selected otherwise; after a switch to
  \<^verbatim>\<open>rnc\<close> the list of articles is shown when no article is selected.
\<close>

theorem setActiveTab_keeps_selection:
  "activeTab (setActiveTab tab p) = tab \<and>
   selectedLaw (setActiveTab tab p) = selectedLaw p \<and>
   selectedArticle (setActiveTab tab p) = selectedArticle p \<and>
   content (setActiveTab ''code'' p) =
     (case selectedLaw p of
        None \<Rightarrow> [CodeLaws]
      | Some n \<Rightarrow> if n = [] then [CodeLaws] else [LawViewer n]) \<and>
   content (setActiveTab ''rnc'' p) = (if truthy (selectedArticle p) then [] else [RncArticles])"
  by (simp add: setActiveTab_def content_def truthy_def split: option.splits)

text \<open>
  Counterexample to C3 as stated: law 40 is selected, the RNC tab is opened and then the
  code tab again. Law 40 is still selected and its viewer is shown, not the list.
\<close>

theorem setActiveTab_counterexample:
  "selectedLaw (setActiveTab ''code'' (setActiveTab ''rnc''
      (setSelectedLaw (Some ''40'') ArbitragePage_initial))) = Some ''40'' \<and>
   content (setActiveTab ''code'' (setActiveTab ''rnc''
      (setSelectedLaw (Some ''40'') ArbitragePage_initial))) = [LawViewer ''40'']"
  by (simp add: setActiveTab_def setSelectedLaw_def ArbitragePage_initial_def content_def
      truthy_def)

end
